theory Spec2Isabelle
  imports Main "HOL-Library.Sublist"
begin

section \<open>JavaScript values\<close>

text \<open>
  The server (\<^verbatim>\<open>server/mcp-weather-server.ts\<close>) handles values of TypeScript type
  \<^verbatim>\<open>unknown\<close>: response headers, response bodies and thrown errors. They are modelled
  by the datatype below. \<open>JNum i\<close> is the integer-valued number \<open>i\<close>, of a magnitude that
  a double holds exactly and prints in decimal (HTTP statuses and the timeout are such);
  \<open>JNaN\<close> and \<open>JInfinity\<close> are the non-finite numbers; fractions are outside the
  model. Strings are byte strings. An object is
  the list of its own enumerable properties in insertion order, with distinct keys.
  An object that may be shared or lie on a reference cycle is held in a store and
  named by its address (\<open>JRef\<close>); a well-formed store holds arrays and objects only.
  Symbols, boxed primitives, accessor properties, \<^verbatim>\<open>toJSON\<close> methods and properties
  inherited from a prototype are outside the model.
\<close>

datatype jsval =
    JUndefined
  | JNull
  | JBool bool
  | JNum int
  | JNaN
  | JInfinity bool
  | JBigInt int
  | JStr string
  | JFunction
  | JArr "jsval list"
  | JObj "(string \<times> jsval) list"
  | JRef nat

type_synonym heap = "(nat \<times> jsval) list"

text \<open>Reading a reference: the array or object stored at the address.\<close>

definition deref :: "heap \<Rightarrow> nat \<Rightarrow> jsval" where
  "deref h a =
     (case map_of h a of
        Some (JArr xs) \<Rightarrow> JArr xs
      | Some (JObj kvs) \<Rightarrow> JObj kvs
      | _ \<Rightarrow> JUndefined)"

definition resolve :: "heap \<Rightarrow> jsval \<Rightarrow> jsval" where
  "resolve h v = (case v of JRef a \<Rightarrow> deref h a | _ \<Rightarrow> v)"

text \<open>\<^verbatim>\<open>!v\<close> is true exactly for the falsy values.\<close>

definition falsy :: "jsval \<Rightarrow> bool" where
  "falsy v =
     (case v of
        JUndefined \<Rightarrow> True
      | JNull \<Rightarrow> True
      | JBool b \<Rightarrow> \<not> b
      | JNum n \<Rightarrow> n = 0
      | JNaN \<Rightarrow> True
      | JBigInt n \<Rightarrow> n = 0
      | JStr s \<Rightarrow> s = []
      | _ \<Rightarrow> False)"

definition typeof :: "jsval \<Rightarrow> string" where
  "typeof v =
     (case v of
        JUndefined \<Rightarrow> ''undefined''
      | JNull \<Rightarrow> ''object''
      | JBool _ \<Rightarrow> ''boolean''
      | JNum _ \<Rightarrow> ''number''
      | JNaN \<Rightarrow> ''number''
      | JInfinity _ \<Rightarrow> ''number''
      | JBigInt _ \<Rightarrow> ''bigint''
      | JStr _ \<Rightarrow> ''string''
      | JFunction \<Rightarrow> ''function''
      | JArr _ \<Rightarrow> ''object''
      | JObj _ \<Rightarrow> ''object''
      | JRef _ \<Rightarrow> ''object'')"

text \<open>The operator \<^verbatim>\<open>a ?? b\<close>: \<open>b\<close> when \<open>a\<close> is null or undefined.\<close>

definition nullish :: "jsval \<Rightarrow> bool" where
  "nullish v = (v = JUndefined \<or> v = JNull)"

definition coalesce :: "jsval \<Rightarrow> jsval \<Rightarrow> jsval" where
  "coalesce a b = (if nullish a then b else a)"

subsection \<open>Decimal numerals and letter case\<close>

definition digit_char :: "nat \<Rightarrow> char" where
  "digit_char d = char_of (48 + d)"

fun decimal :: "nat \<Rightarrow> string" where
  "decimal n = (if n < 10 then [digit_char n] else decimal (n div 10) @ [digit_char (n mod 10)])"

declare decimal.simps [simp del]

definition int_text :: "int \<Rightarrow> string" where
  "int_text i = (if i < 0 then CHR ''-'' # decimal (nat (- i)) else decimal (nat i))"

text \<open>
  \<^verbatim>\<open>toLowerCase\<close> and \<^verbatim>\<open>toUpperCase\<close> on the ASCII letters; header names are ASCII, and
  every other byte is left as it is.
\<close>

definition lower_char :: "char \<Rightarrow> char" where
  "lower_char c =
     (let n = (of_char c :: nat) in if 65 \<le> n \<and> n \<le> 90 then char_of (n + 32) else c)"

definition upper_char :: "char \<Rightarrow> char" where
  "upper_char c =
     (let n = (of_char c :: nat) in if 97 \<le> n \<and> n \<le> 122 then char_of (n - 32) else c)"

definition toLowerCase :: "string \<Rightarrow> string" where
  "toLowerCase s = map lower_char s"

definition toUpperCase :: "string \<Rightarrow> string" where
  "toUpperCase s = map upper_char s"

subsection \<open>Property access\<close>

text \<open>
  The own properties of an object value. An array has its elements under the decimal
  indices and its \<^verbatim>\<open>length\<close>. \<open>js_get\<close> is \<^verbatim>\<open>obj[key]\<close>: a missing property reads as
  \<^verbatim>\<open>undefined\<close>.
\<close>

definition own_props :: "heap \<Rightarrow> jsval \<Rightarrow> (string \<times> jsval) list" where
  "own_props h v =
     (case resolve h v of
        JObj kvs \<Rightarrow> kvs
      | JArr xs \<Rightarrow> zip (map decimal [0..<length xs]) xs @ [(''length'', JNum (int (length xs)))]
      | _ \<Rightarrow> [])"

definition js_get :: "heap \<Rightarrow> jsval \<Rightarrow> string \<Rightarrow> jsval" where
  "js_get h v key = (case map_of (own_props h v) key of Some x \<Rightarrow> x | None \<Rightarrow> JUndefined)"

definition isArray :: "heap \<Rightarrow> jsval \<Rightarrow> bool" where
  "isArray h v = (case resolve h v of JArr _ \<Rightarrow> True | _ \<Rightarrow> False)"

section \<open>Reading a response header\<close>

text \<open>
  \<^verbatim>\<open>getHeaderValue(headers, key)\<close>. \<open>header_lookup\<close> is its local \<^verbatim>\<open>direct\<close>:
  \<^verbatim>\<open>map[key] ?? map[key.toLowerCase()] ?? map[key.toUpperCase()]\<close>. The result \<open>None\<close>
  is \<^verbatim>\<open>undefined\<close>.
\<close>

definition header_lookup :: "heap \<Rightarrow> jsval \<Rightarrow> string \<Rightarrow> jsval" where
  "header_lookup h headers key =
     coalesce (js_get h headers key)
       (coalesce (js_get h headers (toLowerCase key)) (js_get h headers (toUpperCase key)))"

definition string_or_undefined :: "jsval \<Rightarrow> string option" where
  "string_or_undefined v = (case v of JStr s \<Rightarrow> Some s | _ \<Rightarrow> None)"

definition getHeaderValue :: "heap \<Rightarrow> jsval \<Rightarrow> string \<Rightarrow> string option" where
  "getHeaderValue h headers key =
     (if falsy headers \<or> typeof headers \<noteq> ''object'' then None
      else let direct = header_lookup h headers key in
        if isArray h direct then string_or_undefined (js_get h direct ''0'')
        else string_or_undefined direct)"

section \<open>Responses and thrown errors\<close>

text \<open>
  What the HTTP client hands to a handler. A response has a status (\<open>None\<close> when the
  field is absent), headers and a body. A thrown value is an \<^verbatim>\<open>Error\<close> object: either
  one that \<^verbatim>\<open>axios.isAxiosError\<close> accepts, with its \<^verbatim>\<open>message\<close> and its optional
  \<^verbatim>\<open>response\<close>, or any other error, with its \<^verbatim>\<open>name\<close> and \<^verbatim>\<open>message\<close>.
\<close>

record AxiosResponse =
  resp_status :: "int option"
  resp_headers :: jsval
  resp_data :: jsval

datatype thrown =
    AxiosError string "AxiosResponse option"
  | OtherError string string

definition isAxiosError :: "thrown \<Rightarrow> bool" where
  "isAxiosError error = (case error of AxiosError _ _ \<Rightarrow> True | OtherError _ _ \<Rightarrow> False)"

text \<open>\<^verbatim>\<open>String(error)\<close> for an error object: \<^verbatim>\<open>Error.prototype.toString\<close>.\<close>

definition error_text :: "string \<Rightarrow> string \<Rightarrow> string" where
  "error_text name msg =
     (if name = [] then msg else if msg = [] then name else name @ '': '' @ msg)"

definition String :: "thrown \<Rightarrow> string" where
  "String error =
     (case error of
        AxiosError msg _ \<Rightarrow> error_text ''AxiosError'' msg
      | OtherError name msg \<Rightarrow> error_text name msg)"

section \<open>JSON.stringify with an indentation of two spaces\<close>

text \<open>
  \<^verbatim>\<open>JSON.stringify(value, null, 2)\<close>, after the abstract operations of the language
  standard: \<open>SerializeJSONProperty\<close> gives the text of a value, or \<open>None\<close> for
  \<^verbatim>\<open>undefined\<close> (a value with no JSON text), or throws a \<^verbatim>\<open>TypeError\<close> (\<open>Inl\<close>) on a
  \<^verbatim>\<open>BigInt\<close> and on an object that is already on the stack of objects being
  serialized. The stack holds the addresses of the referenced objects entered so far.
\<close>

definition dquote :: char where
  "dquote = CHR 0x22"

definition backslash :: char where
  "backslash = CHR 0x5C"

definition newline :: char where
  "newline = CHR 0x0A"

definition hex_char :: "nat \<Rightarrow> char" where
  "hex_char d = (if d < 10 then char_of (48 + d) else char_of (87 + d))"

definition quote_char :: "char \<Rightarrow> string" where
  "quote_char c =
     (let n = (of_char c :: nat) in
      if n = 8 then [backslash, CHR ''b'']
      else if n = 9 then [backslash, CHR ''t'']
      else if n = 10 then [backslash, CHR ''n'']
      else if n = 12 then [backslash, CHR ''f'']
      else if n = 13 then [backslash, CHR ''r'']
      else if n = 34 then [backslash, dquote]
      else if n = 92 then [backslash, backslash]
      else if n < 32 then
        [backslash, CHR ''u'', CHR ''0'', CHR ''0'', hex_char (n div 16), hex_char (n mod 16)]
      else [c])"

definition QuoteJSONString :: "string \<Rightarrow> string" where
  "QuoteJSONString s = dquote # concat (map quote_char s) @ [dquote]"

definition gap :: string where
  "gap = ''  ''"

fun join :: "string \<Rightarrow> string list \<Rightarrow> string" where
  "join sep [] = []"
| "join sep [p] = p"
| "join sep (p # q # ps) = p @ sep @ join sep (q # ps)"

text \<open>
  The text of an array or object from the texts of its parts: \<open>stepback\<close> is the
  indentation outside the brackets.
\<close>

definition bracket :: "string \<Rightarrow> string \<Rightarrow> string \<Rightarrow> string list \<Rightarrow> string" where
  "bracket l r stepback partial =
     (if partial = [] then l @ r
      else let indent = stepback @ gap in
        l @ [newline] @ indent @ join ('','' @ [newline] @ indent) partial
          @ [newline] @ stepback @ r)"

definition circular_error :: thrown where
  "circular_error = OtherError ''TypeError'' ''Converting circular structure to JSON''"

definition bigint_error :: thrown where
  "bigint_error = OtherError ''TypeError'' ''Do not know how to serialize a BigInt''"

definition unvisited :: "heap \<Rightarrow> nat list \<Rightarrow> nat" where
  "unvisited h st = card (fst ` set h - set st)"

lemma unvisited_less:
  assumes "map_of h a = Some v" and "a \<notin> set st"
  shows "unvisited h (a # st) < unvisited h st"
proof -
  from assms(1) have "(a, v) \<in> set h" by (rule map_of_SomeD)
  then have "a \<in> fst ` set h" by force
  with assms(2) have "fst ` set h - set (a # st) \<subset> fst ` set h - set st" by auto
  then show ?thesis
    unfolding unvisited_def by (intro psubset_card_mono) auto
qed

function (sequential)
  SerializeJSONProperty :: "heap \<Rightarrow> nat list \<Rightarrow> string \<Rightarrow> jsval \<Rightarrow> thrown + string option" and
  SerializeJSONArray :: "heap \<Rightarrow> nat list \<Rightarrow> string \<Rightarrow> jsval list \<Rightarrow> thrown + string list" and
  SerializeJSONObject ::
    "heap \<Rightarrow> nat list \<Rightarrow> string \<Rightarrow> (string \<times> jsval) list \<Rightarrow> thrown + string list"
where
  "SerializeJSONProperty h st ind JUndefined = Inr None"
| "SerializeJSONProperty h st ind JNull = Inr (Some ''null'')"
| "SerializeJSONProperty h st ind (JBool b) = Inr (Some (if b then ''true'' else ''false''))"
| "SerializeJSONProperty h st ind (JNum n) = Inr (Some (int_text n))"
| "SerializeJSONProperty h st ind JNaN = Inr (Some ''null'')"
| "SerializeJSONProperty h st ind (JInfinity s) = Inr (Some ''null'')"
| "SerializeJSONProperty h st ind (JBigInt n) = Inl bigint_error"
| "SerializeJSONProperty h st ind (JStr s) = Inr (Some (QuoteJSONString s))"
| "SerializeJSONProperty h st ind JFunction = Inr None"
| "SerializeJSONProperty h st ind (JArr xs) =
     (case SerializeJSONArray h st (ind @ gap) xs of
        Inl e \<Rightarrow> Inl e
      | Inr partial \<Rightarrow> Inr (Some (bracket ''['' '']'' ind partial)))"
| "SerializeJSONProperty h st ind (JObj kvs) =
     (case SerializeJSONObject h st (ind @ gap) kvs of
        Inl e \<Rightarrow> Inl e
      | Inr partial \<Rightarrow> Inr (Some (bracket ''{'' ''}'' ind partial)))"
| "SerializeJSONProperty h st ind (JRef a) =
     (if a \<in> set st then Inl circular_error
      else case map_of h a of
          Some (JArr xs) \<Rightarrow> SerializeJSONProperty h (a # st) ind (JArr xs)
        | Some (JObj kvs) \<Rightarrow> SerializeJSONProperty h (a # st) ind (JObj kvs)
        | _ \<Rightarrow> Inr None)"
| "SerializeJSONArray h st ind [] = Inr []"
| "SerializeJSONArray h st ind (x # xs) =
     (case SerializeJSONProperty h st ind x of
        Inl e \<Rightarrow> Inl e
      | Inr strP \<Rightarrow>
          (case SerializeJSONArray h st ind xs of
             Inl e \<Rightarrow> Inl e
           | Inr partial \<Rightarrow> Inr ((case strP of None \<Rightarrow> ''null'' | Some t \<Rightarrow> t) # partial)))"
| "SerializeJSONObject h st ind [] = Inr []"
| "SerializeJSONObject h st ind ((k, v) # kvs) =
     (case SerializeJSONProperty h st ind v of
        Inl e \<Rightarrow> Inl e
      | Inr strP \<Rightarrow>
          (case SerializeJSONObject h st ind kvs of
             Inl e \<Rightarrow> Inl e
           | Inr partial \<Rightarrow>
               Inr ((case strP of None \<Rightarrow> [] | Some t \<Rightarrow> [QuoteJSONString k @ '': '' @ t])
                    @ partial)))"
  by pat_completeness auto
termination
  apply (relation "measures
     [(\<lambda>x. case x of Inl (h, st, _, _) \<Rightarrow> unvisited h st
                   | Inr (Inl (h, st, _, _)) \<Rightarrow> unvisited h st
                   | Inr (Inr (h, st, _, _)) \<Rightarrow> unvisited h st),
      (\<lambda>x. case x of Inl (_, _, _, v) \<Rightarrow> size v
                   | Inr (Inl (_, _, _, xs)) \<Rightarrow> size_list size xs
                   | Inr (Inr (_, _, _, kvs)) \<Rightarrow> size_list (size_prod (\<lambda>_. 0) size) kvs)]")
  apply (auto simp: unvisited_less)
  done

definition JSON_stringify :: "heap \<Rightarrow> jsval \<Rightarrow> thrown + string option" where
  "JSON_stringify h v = SerializeJSONProperty h [] [] v"

section \<open>The result envelope and its text\<close>

text \<open>The type \<^verbatim>\<open>RawToolResult\<close>; \<open>None\<close> in a field is \<^verbatim>\<open>null\<close>.\<close>

record source =
  url :: string
  path :: string

record upstream =
  status :: "int option"
  payment_response_header :: "string option"
  x_payment_response_header :: "string option"
  data :: jsval

record RawToolResult =
  ok :: bool
  source :: source
  request :: "(string \<times> jsval) list"
  upstream :: upstream

definition string_or_null :: "string option \<Rightarrow> jsval" where
  "string_or_null t = (case t of None \<Rightarrow> JNull | Some s \<Rightarrow> JStr s)"

definition number_or_null :: "int option \<Rightarrow> jsval" where
  "number_or_null n = (case n of None \<Rightarrow> JNull | Some i \<Rightarrow> JNum i)"

text \<open>The envelope as the object the handler builds, its properties in source order.\<close>

definition envelope_value :: "RawToolResult \<Rightarrow> jsval" where
  "envelope_value result =
     JObj [
       (''ok'', JBool (ok result)),
       (''source'', JObj [
          (''url'', JStr (url (source result))),
          (''path'', JStr (path (source result)))]),
       (''request'', JObj (request result)),
       (''upstream'', JObj [
          (''status'', number_or_null (status (upstream result))),
          (''payment_response_header'',
             string_or_null (payment_response_header (upstream result))),
          (''x_payment_response_header'',
             string_or_null (x_payment_response_header (upstream result))),
          (''data'', data (upstream result))])]"

text \<open>
  \<^verbatim>\<open>safeJsonStringify\<close>: the \<^verbatim>\<open>catch\<close> branch serializes the fixed object
  \<^verbatim>\<open>{ error: "Failed to serialize response" }\<close>.
\<close>

definition fallback_value :: jsval where
  "fallback_value = JObj [(''error'', JStr ''Failed to serialize response'')]"

definition safeJsonStringify :: "heap \<Rightarrow> jsval \<Rightarrow> thrown + string option" where
  "safeJsonStringify h v =
     (case JSON_stringify h v of
        Inr t \<Rightarrow> Inr t
      | Inl _ \<Rightarrow> JSON_stringify h fallback_value)"

definition toRawOutput :: "heap \<Rightarrow> RawToolResult \<Rightarrow> thrown + string option" where
  "toRawOutput h result = safeJsonStringify h (envelope_value result)"

section \<open>Configuration and startup\<close>

text \<open>
  The module reads \<^verbatim>\<open>process.env\<close> once. \<^verbatim>\<open>a ?? b\<close> on an environment variable takes
  the default only when the variable is unset. \<^verbatim>\<open>Number\<close> on a string is a parameter
  (\<open>toNumber\<close>); on the number \<^verbatim>\<open>15000\<close> it is the identity.
\<close>

type_synonym env = "string \<Rightarrow> string option"

record config =
  evmPrivateKey :: "string option"
  svmPrivateKey :: "string option"
  baseURL :: string
  endpointPath :: string
  requestTimeoutMs :: jsval

definition load_config :: "(string \<Rightarrow> jsval) \<Rightarrow> env \<Rightarrow> config" where
  "load_config toNumber e =
     \<lparr> evmPrivateKey = e ''EVM_PRIVATE_KEY'',
       svmPrivateKey = e ''SVM_PRIVATE_KEY'',
       baseURL = (case e ''RESOURCE_SERVER_URL'' of None \<Rightarrow> ''http://localhost:4021'' | Some u \<Rightarrow> u),
       endpointPath = (case e ''ENDPOINT_PATH'' of None \<Rightarrow> ''/weather'' | Some p \<Rightarrow> p),
       requestTimeoutMs =
         (case e ''REQUEST_TIMEOUT_MS'' of None \<Rightarrow> JNum 15000 | Some t \<Rightarrow> toNumber t) \<rparr>"

text \<open>\<^verbatim>\<open>!key\<close> on an optional string: true when it is unset or empty.\<close>

definition missing :: "string option \<Rightarrow> bool" where
  "missing k = (case k of None \<Rightarrow> True | Some s \<Rightarrow> s = [])"

text \<open>
  What the libraries do at startup is a parameter: building a signer from a secret may
  throw (\<^verbatim>\<open>privateKeyToAccount\<close>; \<^verbatim>\<open>base58.decode\<close> with
  \<^verbatim>\<open>createKeyPairSignerFromBytes\<close>), and so may \<^verbatim>\<open>server.connect\<close>.
\<close>

record 'sg runtime =
  toNumber :: "string \<Rightarrow> jsval"
  privateKeyToAccount :: "string \<Rightarrow> thrown + 'sg"
  createKeyPairSignerFromBytes :: "string \<Rightarrow> thrown + 'sg"
  connect :: "thrown + unit"

datatype family = EVM | SVM | OtherFamily string

text \<open>The effects of startup, in the order they happen.\<close>

datatype event =
    SchemeRegistered family
  | ToolRegistered string
  | Connected
  | ProcessExit int

record 'sg paid_client =
  client_baseURL :: string
  client_timeout :: jsval
  schemes :: "(family \<times> 'sg) list"

text \<open>\<^verbatim>\<open>if (key) { register...(client, { signer: ... }) }\<close>\<close>

definition register_scheme ::
  "family \<Rightarrow> (string \<Rightarrow> thrown + 'sg) \<Rightarrow> string option \<Rightarrow> thrown + (family \<times> 'sg) list" where
  "register_scheme f make_signer k =
     (if missing k then Inr []
      else case k of
          None \<Rightarrow> Inr []
        | Some secret \<Rightarrow>
            (case make_signer secret of Inl e \<Rightarrow> Inl e | Inr sg \<Rightarrow> Inr [(f, sg)]))"

definition registered :: "(family \<times> 'sg) list \<Rightarrow> event list" where
  "registered r = map (\<lambda>entry. SchemeRegistered (fst entry)) r"

definition createPaidHttpClient ::
  "'sg runtime \<Rightarrow> config \<Rightarrow> event list \<times> (thrown + 'sg paid_client)" where
  "createPaidHttpClient rt cfg =
     (case register_scheme EVM (privateKeyToAccount rt) (evmPrivateKey cfg) of
        Inl e \<Rightarrow> ([], Inl e)
      | Inr r1 \<Rightarrow>
          (case register_scheme SVM (createKeyPairSignerFromBytes rt) (svmPrivateKey cfg) of
             Inl e \<Rightarrow> (registered r1, Inl e)
           | Inr r2 \<Rightarrow>
               (registered (r1 @ r2),
                Inr \<lparr> client_baseURL = baseURL cfg,
                      client_timeout = requestTimeoutMs cfg,
                      schemes = r1 @ r2 \<rparr>)))"

definition main :: "'sg runtime \<Rightarrow> config \<Rightarrow> event list \<times> (thrown + 'sg paid_client)" where
  "main rt cfg =
     (case createPaidHttpClient rt cfg of
        (evs, Inl e) \<Rightarrow> (evs, Inl e)
      | (evs, Inr api) \<Rightarrow>
          (let evs' = evs @ [ToolRegistered ''get-weather'',
                             ToolRegistered ''get-data-from-resource-server'']
           in case connect rt of
                Inl e \<Rightarrow> (evs', Inl e)
              | Inr _ \<Rightarrow> (evs' @ [Connected], Inr api)))"

text \<open>
  The module body: the check of the two secrets throws at top level (the process ends
  with exit code 1); otherwise \<^verbatim>\<open>main().catch(...)\<close> runs, and a rejection ends the
  process with \<^verbatim>\<open>process.exit(1)\<close>.
\<close>

definition startup :: "'sg runtime \<Rightarrow> env \<Rightarrow> event list" where
  "startup rt e =
     (let cfg = load_config (toNumber rt) e in
      if missing (evmPrivateKey cfg) \<and> missing (svmPrivateKey cfg) then [ProcessExit 1]
      else case main rt cfg of
          (evs, Inl err) \<Rightarrow> evs @ [ProcessExit 1]
        | (evs, Inr api) \<Rightarrow> evs)"

section \<open>The two tool handlers\<close>

text \<open>
  \<^verbatim>\<open>api.get(path, { params })\<close> is a parameter of a handler: it takes the request and
  the state of the world outside (the network) and resolves with a response or rejects
  with a thrown value. A request carries an optional payment proof, absent on the
  requests the handlers build.
\<close>

record request_config =
  req_path :: string
  req_params :: "(string \<times> jsval) list"
  req_proof :: "string option"

datatype api_outcome = Resolved AxiosResponse | Rejected thrown

type_synonym 's api = "request_config \<Rightarrow> 's \<Rightarrow> api_outcome \<times> 's"

text \<open>
  A handler returns \<^verbatim>\<open>{ content: [{ type: "text", text: ... }] }\<close>; the fields of the
  item are \<open>item_type\<close> and \<open>item_text\<close> here. The text is what \<^verbatim>\<open>toRawOutput\<close>
  returned: a string, or \<open>None\<close> for \<^verbatim>\<open>undefined\<close>.
\<close>

record content_item =
  item_type :: string
  item_text :: "string option"

record tool_result =
  content :: "content_item list"

definition text_result :: "string option \<Rightarrow> tool_result" where
  "text_result t = \<lparr> content = [\<lparr> item_type = ''text'', item_text = t \<rparr>] \<rparr>"

text \<open>The \<^verbatim>\<open>upstream\<close> section built in the \<^verbatim>\<open>try\<close> block.\<close>

definition success_upstream :: "heap \<Rightarrow> AxiosResponse \<Rightarrow> upstream" where
  "success_upstream h response =
     \<lparr> status = (case resp_status response of None \<Rightarrow> Some 200 | Some n \<Rightarrow> Some n),
       payment_response_header = getHeaderValue h (resp_headers response) ''payment-response'',
       x_payment_response_header =
         getHeaderValue h (resp_headers response) ''x-payment-response'',
       data = resp_data response \<rparr>"

text \<open>
  The \<^verbatim>\<open>upstream\<close> section built in the \<^verbatim>\<open>catch\<close> block. \<open>response_of\<close> and
  \<open>message_of\<close> are \<^verbatim>\<open>error.response\<close> and \<^verbatim>\<open>error.message\<close>; \<open>response_headers\<close> and
  \<open>response_data\<close> are \<^verbatim>\<open>error.response?.headers\<close> and \<^verbatim>\<open>error.response?.data\<close>.
\<close>

definition response_headers :: "AxiosResponse option \<Rightarrow> jsval" where
  "response_headers r = (case r of None \<Rightarrow> JUndefined | Some x \<Rightarrow> resp_headers x)"

definition response_data :: "AxiosResponse option \<Rightarrow> jsval" where
  "response_data r = (case r of None \<Rightarrow> JUndefined | Some x \<Rightarrow> resp_data x)"

definition response_of :: "thrown \<Rightarrow> AxiosResponse option" where
  "response_of error = (case error of AxiosError _ r \<Rightarrow> r | OtherError _ _ \<Rightarrow> None)"

definition message_of :: "thrown \<Rightarrow> string" where
  "message_of error = (case error of AxiosError msg _ \<Rightarrow> msg | OtherError _ msg \<Rightarrow> msg)"

definition failure_upstream :: "heap \<Rightarrow> thrown \<Rightarrow> upstream" where
  "failure_upstream h error =
     \<lparr> status =
         (if isAxiosError error
          then (case response_of error of None \<Rightarrow> None | Some x \<Rightarrow> resp_status x)
          else None),
       payment_response_header =
         (if isAxiosError error
          then getHeaderValue h (response_headers (response_of error)) ''payment-response''
          else None),
       x_payment_response_header =
         (if isAxiosError error
          then getHeaderValue h (response_headers (response_of error)) ''x-payment-response''
          else None),
       data =
         (if isAxiosError error
          then coalesce (response_data (response_of error))
                 (JObj [(''message'', JStr (message_of error))])
          else JObj [(''message'', JStr (String error))]) \<rparr>"

definition weather_request :: "string \<Rightarrow> string option \<Rightarrow> (string \<times> jsval) list" where
  "weather_request city date =
     [(''tool'', JStr ''get-weather''), (''city'', JStr city), (''date'', string_or_null date)]"

definition resource_request :: "(string \<times> jsval) list" where
  "resource_request = [(''tool'', JStr ''get-data-from-resource-server'')]"

definition envelope ::
  "config \<Rightarrow> bool \<Rightarrow> (string \<times> jsval) list \<Rightarrow> upstream \<Rightarrow> RawToolResult" where
  "envelope cfg flag req up =
     \<lparr> ok = flag,
       source = \<lparr> url = baseURL cfg, path = endpointPath cfg \<rparr>,
       request = req,
       upstream = up \<rparr>"

text \<open>
  The body of a handler after \<^verbatim>\<open>api.get\<close> has settled. \<open>req\<close> is the \<^verbatim>\<open>request\<close> section
  of the envelope. Whatever is thrown inside the \<^verbatim>\<open>try\<close> block reaches the \<^verbatim>\<open>catch\<close>
  block; what is thrown inside the \<^verbatim>\<open>catch\<close> block leaves the handler (\<open>Inl\<close>).
\<close>

definition catch_block ::
  "heap \<Rightarrow> config \<Rightarrow> (string \<times> jsval) list \<Rightarrow> thrown \<Rightarrow> thrown + tool_result" where
  "catch_block h cfg req error =
     (case toRawOutput h (envelope cfg False req (failure_upstream h error)) of
        Inl e \<Rightarrow> Inl e
      | Inr t \<Rightarrow> Inr (text_result t))"

definition settle ::
  "heap \<Rightarrow> config \<Rightarrow> (string \<times> jsval) list \<Rightarrow> api_outcome \<Rightarrow> thrown + tool_result" where
  "settle h cfg req outcome =
     (case outcome of
        Rejected error \<Rightarrow> catch_block h cfg req error
      | Resolved response \<Rightarrow>
          (case toRawOutput h (envelope cfg True req (success_upstream h response)) of
             Inl e \<Rightarrow> catch_block h cfg req e
           | Inr t \<Rightarrow> Inr (text_result t)))"

text \<open>
  The handler of \<^verbatim>\<open>get-weather\<close>: \<^verbatim>\<open>api.get(endpointPath, { params: { city, date } })\<close>,
  where \<open>date\<close> may be \<^verbatim>\<open>undefined\<close>.
\<close>

definition string_or_undef :: "string option \<Rightarrow> jsval" where
  "string_or_undef t = (case t of None \<Rightarrow> JUndefined | Some s \<Rightarrow> JStr s)"

definition weather_call :: "config \<Rightarrow> string \<Rightarrow> string option \<Rightarrow> request_config" where
  "weather_call cfg city date =
     \<lparr> req_path = endpointPath cfg,
       req_params = [(''city'', JStr city), (''date'', string_or_undef date)],
       req_proof = None \<rparr>"

definition get_weather ::
  "heap \<Rightarrow> config \<Rightarrow> 's api \<Rightarrow> string \<Rightarrow> string option \<Rightarrow> 's \<Rightarrow> (thrown + tool_result) \<times> 's" where
  "get_weather h cfg api city date s =
     (case api (weather_call cfg city date) s of
        (outcome, s') \<Rightarrow> (settle h cfg (weather_request city date) outcome, s'))"

text \<open>The handler of \<^verbatim>\<open>get-data-from-resource-server\<close>: \<^verbatim>\<open>api.get(endpointPath)\<close>.\<close>

definition resource_call :: "config \<Rightarrow> request_config" where
  "resource_call cfg = \<lparr> req_path = endpointPath cfg, req_params = [], req_proof = None \<rparr>"

definition get_data_from_resource_server ::
  "heap \<Rightarrow> config \<Rightarrow> 's api \<Rightarrow> 's \<Rightarrow> (thrown + tool_result) \<times> 's" where
  "get_data_from_resource_server h cfg api s =
     (case api (resource_call cfg) s of
        (outcome, s') \<Rightarrow> (settle h cfg resource_request outcome, s'))"

section \<open>The payment-aware request executor\<close>

text \<open>
  Modelled from the spec: the Payment Challenge of section 3, as far as the executor
  reads it: the scheme family it names, and the rest of it as opaque data. The code
  that parses a challenge belongs to the payment libraries and is not in the sources.
\<close>

record challenge =
  scheme :: family
  material :: jsval

text \<open>
  Modelled from the spec: the Signer Capability of section 4.1, whose one operation
  produces a signed proof for a given challenge; the operation may fail.
\<close>

type_synonym signer = "challenge \<Rightarrow> thrown + string"

text \<open>
  Modelled from the spec: what the Payment Negotiator of section 4.3 yields: a proof, or
  \<open>UnsupportedSchemeError\<close> (section 7), or the failure of the signing step.
\<close>

datatype negotiation = Proof string | UnsupportedSchemeError | SigningError thrown

text \<open>
  Modelled from the spec: the Payment Negotiator of section 4.3. It looks the scheme
  family of the challenge up in the registry; an absent family is
  \<open>UnsupportedSchemeError\<close>; otherwise the capability signs, once, and a signing
  failure is final.
\<close>

definition negotiate :: "(family \<times> signer) list \<Rightarrow> challenge \<Rightarrow> negotiation" where
  "negotiate reg c =
     (case map_of reg (scheme c) of
        None \<Rightarrow> UnsupportedSchemeError
      | Some sign \<Rightarrow> (case sign c of Inl e \<Rightarrow> SigningError e | Inr p \<Rightarrow> Proof p))"

text \<open>
  Modelled from the spec: the outcome of one network call (section 4.4). The upstream
  answers with a response, or the call fails at transport level (a timeout, a refused
  connection) with a message. The HTTP transport is not in the sources.
\<close>

datatype wire = Replied AxiosResponse | TransportError string

text \<open>
  Modelled from the spec: the classification of an outcome (section 4.4). Only status
  402 is \<open>PaymentRequired\<close>; every other response is \<open>Succeeded\<close>; a transport error is
  \<open>Failed\<close>.
\<close>

datatype classification = Succeeded | PaymentRequired | Failed

definition classify :: "wire \<Rightarrow> classification" where
  "classify w =
     (case w of
        Replied r \<Rightarrow> if resp_status r = Some 402 then PaymentRequired else Succeeded
      | TransportError _ \<Rightarrow> Failed)"

text \<open>
  Modelled from the spec: the world outside an invocation, for counting network calls
  (sections 4.4 and 8): the state of the upstream and the requests sent so far, in order.
\<close>

record 'u net =
  remote :: 'u
  sent :: "request_config list"

text \<open>
  Modelled from the spec: what the executor is built from (sections 4.2 to 4.4): the
  Scheme Registry, the upstream it talks to, the extraction of a challenge from a 402
  response (the schema belongs to the payment libraries), and the message of the error
  that carries a 402 response, which the spec leaves open.
\<close>

record 'u executor =
  registry :: "(family \<times> signer) list"
  network :: "request_config \<Rightarrow> 'u \<Rightarrow> wire \<times> 'u"
  challenge_of :: "AxiosResponse \<Rightarrow> thrown + challenge"
  status_message :: "AxiosResponse \<Rightarrow> string"

text \<open>
  Modelled from the spec: issuing one request (section 4.4); each call is recorded.
\<close>

definition send :: "'u executor \<Rightarrow> request_config \<Rightarrow> 'u net \<Rightarrow> wire \<times> 'u net" where
  "send ex req n =
     (case network ex req (remote n) of
        (w, u) \<Rightarrow> (w, \<lparr> remote = u, sent = sent n @ [req] \<rparr>))"

text \<open>
  Modelled from the spec: how a terminal outcome reaches the caller (sections 4.4, 4.5
  and 7). A \<open>Succeeded\<close> response is returned; a transport error is an error with no
  response; a 402 response that ends the call is an error that carries that response.
\<close>

definition surface :: "'u executor \<Rightarrow> wire \<Rightarrow> api_outcome" where
  "surface ex w =
     (case w of
        TransportError msg \<Rightarrow> Rejected (AxiosError msg None)
      | Replied r \<Rightarrow>
          if classify w = PaymentRequired then Rejected (AxiosError (status_message ex r) (Some r))
          else Resolved r)"

text \<open>
  Modelled from the spec: the retry state machine of section 4.4, which stands for
  \<^verbatim>\<open>wrapAxiosWithPayment\<close> of the package \<^verbatim>\<open>@x402/axios\<close>, whose code is not in the
  sources. \<open>Sending\<close>: the request goes out. On \<open>PaymentRequired\<close> the challenge is
  extracted and negotiated; an unsupported scheme surfaces the original 402 response,
  with no retry; with a proof, a new request, otherwise identical, goes out
  (\<open>Retrying\<close>), and its outcome is terminal whatever it is.
\<close>

definition execute :: "'u executor \<Rightarrow> request_config \<Rightarrow> 'u net \<Rightarrow> api_outcome \<times> 'u net" where
  "execute ex req n =
     (case send ex req n of
        (w1, n1) \<Rightarrow>
          (case w1 of
             TransportError msg \<Rightarrow> (surface ex w1, n1)
           | Replied r1 \<Rightarrow>
               if classify w1 \<noteq> PaymentRequired then (surface ex w1, n1)
               else
                 (case challenge_of ex r1 of
                    Inl e \<Rightarrow> (Rejected e, n1)
                  | Inr c \<Rightarrow>
                      (case negotiate (registry ex) c of
                         UnsupportedSchemeError \<Rightarrow> (surface ex w1, n1)
                       | SigningError e \<Rightarrow> (Rejected e, n1)
                       | Proof p \<Rightarrow>
                           (case send ex (req\<lparr> req_proof := Some p \<rparr>) n1 of
                              (w2, n2) \<Rightarrow> (surface ex w2, n2))))))"

section \<open>Auxiliary notions and example inputs\<close>

text \<open>The values that are objects: what passes the guard of \<^verbatim>\<open>getHeaderValue\<close>.\<close>

definition is_object :: "jsval \<Rightarrow> bool" where
  "is_object v = (case v of JArr _ \<Rightarrow> True | JObj _ \<Rightarrow> True | JRef _ \<Rightarrow> True | _ \<Rightarrow> False)"



text \<open>
  The text of the fallback object: an opening brace, the one member indented by two
  spaces on a line of its own, a closing brace.
\<close>

definition fallback_text :: string where
  "fallback_text =
     ''{'' @ [newline] @ ''  '' @ [dquote] @ ''error'' @ [dquote] @ '': ''
       @ [dquote] @ ''Failed to serialize response'' @ [dquote] @ [newline] @ ''}''"

text \<open>
  A store with an object that refers to itself, and an envelope whose \<^verbatim>\<open>data\<close> is that
  object.
\<close>

definition cyclic_heap :: heap where
  "cyclic_heap = [(0, JObj [(''self'', JRef 0)])]"

definition cyclic_envelope :: RawToolResult where
  "cyclic_envelope =
     \<lparr> ok = True,
       source = \<lparr> url = ''http://localhost:4021'', path = ''/weather'' \<rparr>,
       request = [(''tool'', JStr ''get-data-from-resource-server'')],
       upstream = \<lparr> status = Some 200, payment_response_header = None,
                    x_payment_response_header = None, data = JRef 0 \<rparr> \<rparr>"

subsection \<open>Example invocations\<close>

text \<open>
  A configuration with the default address, a client that settles every request the same
  way, and four outcomes with the envelopes expected for them: a paid response with a
  receipt header; a response with neither status nor headers; a timeout; a response
  with status 503 and a null body.
\<close>

definition default_config :: config where
  "default_config =
     \<lparr> evmPrivateKey = Some ''0xabc'', svmPrivateKey = None,
       baseURL = ''http://localhost:4021'', endpointPath = ''/weather'',
       requestTimeoutMs = JNum 15000 \<rparr>"

definition always :: "api_outcome \<Rightarrow> unit api" where
  "always outcome req s = (outcome, s)"

definition beijing_response :: AxiosResponse where
  "beijing_response =
     \<lparr> resp_status = Some 200,
       resp_headers = JObj [(''payment-response'', JStr ''receipt'')],
       resp_data = JObj [(''temp'', JNum 21)] \<rparr>"

definition bare_response :: AxiosResponse where
  "bare_response = \<lparr> resp_status = None, resp_headers = JUndefined, resp_data = JStr ''sunny'' \<rparr>"

definition beijing_envelope :: jsval where
  "beijing_envelope =
     JObj [(''ok'', JBool True),
           (''source'', JObj [(''url'', JStr ''http://localhost:4021''),
                              (''path'', JStr ''/weather'')]),
           (''request'', JObj [(''tool'', JStr ''get-weather''),
                               (''city'', JStr ''Beijing''), (''date'', JNull)]),
           (''upstream'', JObj [(''status'', JNum 200),
                                (''payment_response_header'', JStr ''receipt''),
                                (''x_payment_response_header'', JNull),
                                (''data'', JObj [(''temp'', JNum 21)])])]"

definition bare_envelope :: jsval where
  "bare_envelope =
     JObj [(''ok'', JBool True),
           (''source'', JObj [(''url'', JStr ''http://localhost:4021''),
                              (''path'', JStr ''/weather'')]),
           (''request'', JObj [(''tool'', JStr ''get-data-from-resource-server'')]),
           (''upstream'', JObj [(''status'', JNum 200),
                                (''payment_response_header'', JNull),
                                (''x_payment_response_header'', JNull),
                                (''data'', JStr ''sunny'')])]"

definition timeout_error :: thrown where
  "timeout_error = AxiosError ''timeout of 15000ms exceeded'' None"

definition timeout_envelope :: jsval where
  "timeout_envelope =
     JObj [(''ok'', JBool False),
           (''source'', JObj [(''url'', JStr ''http://localhost:4021''),
                              (''path'', JStr ''/weather'')]),
           (''request'', JObj [(''tool'', JStr ''get-weather''),
                               (''city'', JStr ''Beijing''), (''date'', JStr ''2026-02-13'')]),
           (''upstream'', JObj [(''status'', JNull),
                                (''payment_response_header'', JNull),
                                (''x_payment_response_header'', JNull),
                                (''data'', JObj [(''message'',
                                   JStr ''timeout of 15000ms exceeded'')])])]"

definition unavailable_error :: thrown where
  "unavailable_error =
     AxiosError ''Request failed with status code 503''
       (Some \<lparr> resp_status = Some 503, resp_headers = JObj [], resp_data = JNull \<rparr>)"

definition unavailable_envelope :: jsval where
  "unavailable_envelope =
     JObj [(''ok'', JBool False),
           (''source'', JObj [(''url'', JStr ''http://localhost:4021''),
                              (''path'', JStr ''/weather'')]),
           (''request'', JObj [(''tool'', JStr ''get-data-from-resource-server'')]),
           (''upstream'', JObj [(''status'', JNum 503),
                                (''payment_response_header'', JNull),
                                (''x_payment_response_header'', JNull),
                                (''data'', JObj [(''message'',
                                   JStr ''Request failed with status code 503'')])])]"

text \<open>
  A runtime in which every library call succeeds, an environment with no variable set,
  and one with only the EVM secret.
\<close>

definition example_runtime :: "string runtime" where
  "example_runtime =
     \<lparr> toNumber = (\<lambda>t. JNaN),
       privateKeyToAccount = (\<lambda>k. Inr k),
       createKeyPairSignerFromBytes = (\<lambda>k. Inr k),
       connect = Inr () \<rparr>"

definition no_variables :: env where
  "no_variables = (\<lambda>name. None)"

definition evm_only :: env where
  "evm_only = (\<lambda>name. if name = ''EVM_PRIVATE_KEY'' then Some ''0xabc'' else None)"

subsection \<open>Example upstreams\<close>

text \<open>
  A registry with an EVM capability only, and three upstreams that challenge with a
  402: one that answers 402 again to the paid request, one that then answers 200, and
  one whose challenge names the SVM family.
\<close>

definition challenge_response :: AxiosResponse where
  "challenge_response =
     \<lparr> resp_status = Some 402, resp_headers = JObj [],
       resp_data = JObj [(''accepts'', JArr [JObj [(''scheme'', JStr ''exact'')]])] \<rparr>"

definition paid_response :: AxiosResponse where
  "paid_response =
     \<lparr> resp_status = Some 200,
       resp_headers = JObj [(''payment-response'', JStr ''receipt'')],
       resp_data = JObj [(''temp'', JNum 21)] \<rparr>"

definition evm_registry :: "(family \<times> signer) list" where
  "evm_registry = [(EVM, \<lambda>c. Inr ''signed'')]"

definition unpayable :: "unit executor" where
  "unpayable =
     \<lparr> registry = evm_registry,
       network = (\<lambda>req u. (Replied challenge_response, u)),
       challenge_of = (\<lambda>r. Inr \<lparr> scheme = EVM, material = resp_data r \<rparr>),
       status_message = (\<lambda>r. ''Request failed with status code 402'') \<rparr>"

definition paying :: "unit executor" where
  "paying =
     \<lparr> registry = evm_registry,
       network = (\<lambda>req u.
         (case req_proof req of
            None \<Rightarrow> Replied challenge_response
          | Some p \<Rightarrow> Replied paid_response, u)),
       challenge_of = (\<lambda>r. Inr \<lparr> scheme = EVM, material = resp_data r \<rparr>),
       status_message = (\<lambda>r. ''Request failed with status code 402'') \<rparr>"

definition svm_challenger :: "unit executor" where
  "svm_challenger =
     \<lparr> registry = evm_registry,
       network = (\<lambda>req u. (Replied challenge_response, u)),
       challenge_of = (\<lambda>r. Inr \<lparr> scheme = SVM, material = resp_data r \<rparr>),
       status_message = (\<lambda>r. ''Request failed with status code 402'') \<rparr>"

definition idle :: "unit net" where
  "idle = \<lparr> remote = (), sent = [] \<rparr>"

definition unsupported_weather_envelope :: jsval where
  "unsupported_weather_envelope =
     JObj [(''ok'', JBool False),
           (''source'', JObj [(''url'', JStr ''http://localhost:4021''),
                              (''path'', JStr ''/weather'')]),
           (''request'', JObj [(''tool'', JStr ''get-weather''),
                               (''city'', JStr ''Beijing''), (''date'', JNull)]),
           (''upstream'', JObj [(''status'', JNum 402),
                                (''payment_response_header'', JNull),
                                (''x_payment_response_header'', JNull),
                                (''data'', JObj [(''accepts'',
                                   JArr [JObj [(''scheme'', JStr ''exact'')]])])])]"

definition unsupported_resource_envelope :: jsval where
  "unsupported_resource_envelope =
     JObj [(''ok'', JBool False),
           (''source'', JObj [(''url'', JStr ''http://localhost:4021''),
                              (''path'', JStr ''/weather'')]),
           (''request'', JObj [(''tool'', JStr ''get-data-from-resource-server'')]),
           (''upstream'', JObj [(''status'', JNum 402),
                                (''payment_response_header'', JNull),
                                (''x_payment_response_header'', JNull),
                                (''data'', JObj [(''accepts'',
                                   JArr [JObj [(''scheme'', JStr ''exact'')]])])])]"

section \<open>Properties of the header reader\<close>

lemma not_object_rejected: "\<not> is_object v \<Longrightarrow> falsy v \<or> typeof v \<noteq> ''object''"
  by (cases v) (simp_all add: is_object_def falsy_def typeof_def)

lemma object_accepted: "is_object v \<Longrightarrow> \<not> (falsy v \<or> typeof v \<noteq> ''object'')"
  by (cases v) (simp_all add: is_object_def falsy_def typeof_def)

lemma decimal_zero: "decimal 0 = ''0''"
  by code_simp

lemma first_element:
  "resolve h v = JArr xs \<Longrightarrow> js_get h v ''0'' = (case xs of [] \<Rightarrow> JUndefined | x # _ \<Rightarrow> x)"
  by (cases xs) (simp_all add: js_get_def own_props_def upt_conv_Cons decimal_zero del: upt_Suc)

lemma lower_payment_response: "toLowerCase ''payment-response'' = ''payment-response''"
  by code_simp

lemma upper_payment_response: "toUpperCase ''payment-response'' = ''PAYMENT-RESPONSE''"
  by code_simp

text \<open>
  C9. \<^verbatim>\<open>getHeaderValue\<close> returns on every input, and: when \<open>headers\<close> is absent or not an
  object the result is \<^verbatim>\<open>undefined\<close>; when the value found is an array the result is its
  first element if that is a string and \<^verbatim>\<open>undefined\<close> otherwise; a string found is
  returned; anything else found (a number, a boolean, null, an object) gives
  \<^verbatim>\<open>undefined\<close>, never a string made from it.
\<close>

theorem getHeaderValue_total:
  "(\<not> is_object headers \<longrightarrow> getHeaderValue h headers key = None) \<and>
   (is_object headers \<and> resolve h (header_lookup h headers key) = JArr xs \<longrightarrow>
      getHeaderValue h headers key = (case xs of JStr s # _ \<Rightarrow> Some s | _ \<Rightarrow> None)) \<and>
   (is_object headers \<and> header_lookup h headers key = JStr s \<longrightarrow>
      getHeaderValue h headers key = Some s) \<and>
   (is_object headers \<and> \<not> isArray h (header_lookup h headers key) \<and>
      (\<forall>t. header_lookup h headers key \<noteq> JStr t) \<longrightarrow>
      getHeaderValue h headers key = None)"
proof (intro conjI impI)
  assume "\<not> is_object headers"
  then show "getHeaderValue h headers key = None"
    using not_object_rejected [of headers] by (simp add: getHeaderValue_def)
next
  assume a: "is_object headers \<and> resolve h (header_lookup h headers key) = JArr xs"
  then have "isArray h (header_lookup h headers key)"
    by (simp add: isArray_def)
  with a show "getHeaderValue h headers key = (case xs of JStr s # _ \<Rightarrow> Some s | _ \<Rightarrow> None)"
    using object_accepted [of headers] first_element [of h "header_lookup h headers key" xs]
    by (auto simp: getHeaderValue_def string_or_undefined_def split: list.splits jsval.splits)
next
  assume a: "is_object headers \<and> header_lookup h headers key = JStr s"
  then show "getHeaderValue h headers key = Some s"
    using object_accepted [of headers]
    by (simp add: getHeaderValue_def isArray_def resolve_def string_or_undefined_def)
next
  assume a: "is_object headers \<and> \<not> isArray h (header_lookup h headers key) \<and>
      (\<forall>t. header_lookup h headers key \<noteq> JStr t)"
  then show "getHeaderValue h headers key = None"
    using object_accepted [of headers]
    by (auto simp: getHeaderValue_def string_or_undefined_def split: jsval.splits)
qed

theorem getHeaderValue_total_witness:
  "getHeaderValue [] JUndefined ''payment-response'' = None \<and>
   getHeaderValue [] (JStr ''payment-response'') ''payment-response'' = None \<and>
   getHeaderValue [] (JObj [(''payment-response'', JArr [JStr ''a'', JStr ''b''])])
     ''payment-response'' = Some ''a'' \<and>
   getHeaderValue [] (JObj [(''payment-response'', JStr ''a'')]) ''payment-response'' = Some ''a'' \<and>
   getHeaderValue [] (JObj [(''payment-response'', JNum 7)]) ''payment-response'' = None"
proof -
  let ?k = "''payment-response''"
  let ?arr = "JObj [(?k, JArr [JStr ''a'', JStr ''b''])]"
  let ?str = "JObj [(?k, JStr ''a'')]"
  let ?num = "JObj [(?k, JNum 7)]"
  have 1: "\<not> is_object JUndefined" and 2: "\<not> is_object (JStr ?k)"
    by (simp_all add: is_object_def)
  have 3: "is_object ?arr \<and> resolve [] (header_lookup [] ?arr ?k) = JArr [JStr ''a'', JStr ''b'']"
    by (simp add: is_object_def header_lookup_def js_get_def own_props_def resolve_def
        coalesce_def nullish_def)
  have 4: "is_object ?str \<and> header_lookup [] ?str ?k = JStr ''a''"
    by (simp add: is_object_def header_lookup_def js_get_def own_props_def resolve_def
        coalesce_def nullish_def)
  have 5: "is_object ?num \<and> \<not> isArray [] (header_lookup [] ?num ?k) \<and>
      (\<forall>t. header_lookup [] ?num ?k \<noteq> JStr t)"
    by (simp add: is_object_def header_lookup_def js_get_def own_props_def resolve_def
        coalesce_def nullish_def isArray_def)
  show ?thesis
    using getHeaderValue_total [of JUndefined "[]" ?k] 1
      getHeaderValue_total [of "JStr ?k" "[]" ?k] 2
      getHeaderValue_total [of ?arr "[]" ?k "[JStr ''a'', JStr ''b'']"] 3
      getHeaderValue_total [of ?str "[]" ?k _ "''a''"] 4
      getHeaderValue_total [of ?num "[]" ?k] 5
    by simp
qed

text \<open>
  The function tries the key as given, its lower case and its upper case, and nothing
  else: on an object built by hand that stores a value under a mixed-case name, the
  lower-case key does not find it. The handlers pass the headers of a response, whose
  names are in lower case.
\<close>

lemma mixed_case_name_not_tried:
  "getHeaderValue h (JObj [(''Payment-Response'', JStr v)]) ''payment-response'' = None \<and>
   getHeaderValue h (JObj [(''payment-response'', JStr v)]) ''payment-response'' = Some v \<and>
   getHeaderValue h (JObj [(''PAYMENT-RESPONSE'', JStr v)]) ''payment-response'' = Some v"
  by (simp add: getHeaderValue_def header_lookup_def js_get_def own_props_def resolve_def
      coalesce_def nullish_def isArray_def string_or_undefined_def falsy_def typeof_def
      lower_payment_response upper_payment_response)













section \<open>Properties of serialization\<close>

lemma quote_error: "QuoteJSONString ''error'' = [dquote] @ ''error'' @ [dquote]"
  by code_simp

lemma quote_failed:
  "QuoteJSONString ''Failed to serialize response'' =
     [dquote] @ ''Failed to serialize response'' @ [dquote]"
  by code_simp

lemma stringify_fallback: "JSON_stringify h fallback_value = Inr (Some fallback_text)"
  by (simp add: JSON_stringify_def fallback_value_def fallback_text_def bracket_def gap_def
      quote_error quote_failed)

lemma stringify_object:
  "(\<exists>e. JSON_stringify h (JObj kvs) = Inl e) \<or> (\<exists>t. JSON_stringify h (JObj kvs) = Inr (Some t))"
  by (simp add: JSON_stringify_def split: sum.splits)

lemma safe_never_throws: "\<exists>t. safeJsonStringify h v = Inr t"
  by (simp add: safeJsonStringify_def stringify_fallback split: sum.splits)

lemma safe_object: "\<exists>t. safeJsonStringify h (JObj kvs) = Inr (Some t)"
  using stringify_object [of h kvs]
  by (auto simp: safeJsonStringify_def stringify_fallback split: sum.splits)

lemma toRawOutput_returns: "\<exists>t. toRawOutput h result = Inr (Some t)"
  by (simp add: toRawOutput_def envelope_value_def safe_object)

lemma cyclic_envelope_throws: "JSON_stringify cyclic_heap (envelope_value cyclic_envelope) = Inl circular_error"
  by code_simp

lemma bigint_throws: "JSON_stringify [] (JArr [JBigInt 1]) = Inl bigint_error"
  by code_simp

lemma temp_text: 
  "JSON_stringify [] (JObj [(''temp'', JNum 21)]) =
     Inr (Some (''{'' @ [newline] @ ''  '' @ [dquote] @ ''temp'' @ [dquote] @ '': 21''
                @ [newline] @ ''}''))"
  by code_simp

text \<open>
  C8. \<^verbatim>\<open>safeJsonStringify\<close> never throws. On an envelope it returns a string. When
  \<^verbatim>\<open>JSON.stringify\<close> throws on the value (a reference cycle, a \<^verbatim>\<open>BigInt\<close>) the result is
  the text of the fixed object \<^verbatim>\<open>{ "error": "Failed to serialize response" }\<close>; when it
  does not throw, the result is what it returned.
\<close>

theorem safeJsonStringify_never_throws:
  "(\<exists>t. safeJsonStringify h v = Inr t) \<and>
   (\<exists>t. safeJsonStringify h (envelope_value result) = Inr (Some t)) \<and>
   (JSON_stringify h v = Inl e \<longrightarrow> safeJsonStringify h v = Inr (Some fallback_text)) \<and>
   (JSON_stringify h v = Inr t \<longrightarrow> safeJsonStringify h v = Inr t)"
  using safe_never_throws [of h v] safe_object
  by (simp add: safeJsonStringify_def stringify_fallback envelope_value_def)

theorem safeJsonStringify_never_throws_witness:
  "safeJsonStringify cyclic_heap (envelope_value cyclic_envelope) = Inr (Some fallback_text) \<and>
   safeJsonStringify [] (JArr [JBigInt 1]) = Inr (Some fallback_text) \<and>
   safeJsonStringify [] (JObj [(''temp'', JNum 21)]) =
     Inr (Some (''{'' @ [newline] @ ''  '' @ [dquote] @ ''temp'' @ [dquote] @ '': 21'' @ [newline] @ ''}''))"
  using safeJsonStringify_never_throws [of cyclic_heap "envelope_value cyclic_envelope" _ circular_error]
    safeJsonStringify_never_throws [of "[]" "JArr [JBigInt 1]" _ bigint_error]
    safeJsonStringify_never_throws [of "[]" "JObj [(''temp'', JNum 21)]" _ _
      "Some (''{'' @ [newline] @ ''  '' @ [dquote] @ ''temp'' @ [dquote] @ '': 21''
             @ [newline] @ ''}'')"]
    cyclic_envelope_throws bigint_throws temp_text
  by simp

section \<open>Properties of the handlers\<close>

lemma catch_block_text:
  "toRawOutput h (envelope cfg False req (failure_upstream h error)) = Inr t \<Longrightarrow>
   catch_block h cfg req error = Inr (text_result t)"
  by (simp add: catch_block_def)

lemma settle_rejected:
  "\<exists>t. settle h cfg req (Rejected error) = Inr (text_result (Some t)) \<and>
       toRawOutput h (envelope cfg False req (failure_upstream h error)) = Inr (Some t)"
  using toRawOutput_returns [of h "envelope cfg False req (failure_upstream h error)"]
  by (auto simp: settle_def catch_block_def)

lemma settle_resolved:
  "\<exists>t. settle h cfg req (Resolved response) = Inr (text_result (Some t)) \<and>
       toRawOutput h (envelope cfg True req (success_upstream h response)) = Inr (Some t)"
  using toRawOutput_returns [of h "envelope cfg True req (success_upstream h response)"]
  by (auto simp: settle_def)


lemma get_weather_settle:
  "get_weather h cfg api city date s =
     (settle h cfg (weather_request city date) (fst (api (weather_call cfg city date) s)),
      snd (api (weather_call cfg city date) s))"
  by (simp add: get_weather_def split: prod.splits)

lemma get_data_settle:
  "get_data_from_resource_server h cfg api s =
     (settle h cfg resource_request (fst (api (resource_call cfg) s)),
      snd (api (resource_call cfg) s))"
  by (simp add: get_data_from_resource_server_def split: prod.splits)

lemma header_of_undefined: "getHeaderValue h JUndefined key = None"
  by (simp add: getHeaderValue_def falsy_def)

lemma message_carried: "sublist msg (error_text name msg)"
proof -
  have "sublist msg (name @ '': '' @ msg)"
    unfolding sublist_def
    by (rule exI [of _ "name @ '': ''"], rule exI [of _ "[]"]) simp
  then show ?thesis
    by (simp add: error_text_def)
qed


lemma toRawOutput_serializable:
  "envelope_value E = X \<Longrightarrow> \<not> isl (JSON_stringify h X) \<Longrightarrow>
   toRawOutput h E = JSON_stringify h X"
  by (cases "JSON_stringify h X") (simp_all add: toRawOutput_def safeJsonStringify_def)

lemma receipt_headers:
  "getHeaderValue [] (JObj [(''payment-response'', JStr ''receipt'')]) ''payment-response'' =
     Some ''receipt''"
  "getHeaderValue [] (JObj [(''payment-response'', JStr ''receipt'')]) ''x-payment-response'' =
     None"
  "getHeaderValue [] (JObj []) ''payment-response'' = None"
  "getHeaderValue [] (JObj []) ''x-payment-response'' = None"
  by code_simp+

lemma example_envelopes_serializable:
  "\<not> isl (JSON_stringify [] beijing_envelope)"
  "\<not> isl (JSON_stringify [] bare_envelope)"
  "\<not> isl (JSON_stringify [] timeout_envelope)"
  "\<not> isl (JSON_stringify [] unavailable_envelope)"
  by code_simp+

text \<open>
  C4. When \<^verbatim>\<open>api.get\<close> resolves with a response, either handler returns the text of the
  envelope with \<^verbatim>\<open>ok = true\<close> whose upstream section has the status of the response
  (200 when the response has none), the body of the response as it is, and for each of
  the headers \<^verbatim>\<open>payment-response\<close> and \<^verbatim>\<open>x-payment-response\<close> the string that
  \<^verbatim>\<open>getHeaderValue\<close> extracts, or null.
\<close>

theorem resolved_call_envelope:
  "(api (weather_call cfg city date) s = (Resolved r, s') \<longrightarrow>
      (\<exists>t. get_weather h cfg api city date s = (Inr (text_result (Some t)), s') \<and>
           toRawOutput h
             \<lparr> ok = True,
               source = \<lparr> url = baseURL cfg, path = endpointPath cfg \<rparr>,
               request = weather_request city date,
               upstream = success_upstream h r \<rparr> = Inr (Some t))) \<and>
   (api (resource_call cfg) s = (Resolved r, s') \<longrightarrow>
      (\<exists>t. get_data_from_resource_server h cfg api s = (Inr (text_result (Some t)), s') \<and>
           toRawOutput h
             \<lparr> ok = True,
               source = \<lparr> url = baseURL cfg, path = endpointPath cfg \<rparr>,
               request = resource_request,
               upstream = success_upstream h r \<rparr> = Inr (Some t))) \<and>
   status (success_upstream h r) = Some (case resp_status r of None \<Rightarrow> 200 | Some n \<Rightarrow> n) \<and>
   data (success_upstream h r) = resp_data r \<and>
   payment_response_header (success_upstream h r) =
     getHeaderValue h (resp_headers r) ''payment-response'' \<and>
   x_payment_response_header (success_upstream h r) =
     getHeaderValue h (resp_headers r) ''x-payment-response''"
  using settle_resolved [of h cfg "weather_request city date" r]
    settle_resolved [of h cfg resource_request r]
  by (auto simp: get_weather_settle get_data_settle envelope_def success_upstream_def
      split: option.splits)

theorem resolved_call_envelope_witness:
  "(\<exists>t. get_weather [] default_config (always (Resolved beijing_response)) ''Beijing'' None () =
          (Inr (text_result (Some t)), ()) \<and>
        JSON_stringify [] beijing_envelope = Inr (Some t)) \<and>
   (\<exists>t. get_data_from_resource_server [] default_config (always (Resolved bare_response)) () =
          (Inr (text_result (Some t)), ()) \<and>
        JSON_stringify [] bare_envelope = Inr (Some t))"
proof -
  let ?E1 = "\<lparr> ok = True,
               source = \<lparr> url = baseURL default_config, path = endpointPath default_config \<rparr>,
               request = weather_request ''Beijing'' None,
               upstream = success_upstream [] beijing_response \<rparr>"
  let ?E2 = "\<lparr> ok = True,
               source = \<lparr> url = baseURL default_config, path = endpointPath default_config \<rparr>,
               request = resource_request,
               upstream = success_upstream [] bare_response \<rparr>"
  have v1: "envelope_value ?E1 = beijing_envelope"
    by (simp add: envelope_value_def default_config_def weather_request_def success_upstream_def
        beijing_response_def receipt_headers number_or_null_def string_or_null_def
        beijing_envelope_def)
  have v2: "envelope_value ?E2 = bare_envelope"
    by (simp add: envelope_value_def default_config_def resource_request_def success_upstream_def
        bare_response_def header_of_undefined number_or_null_def string_or_null_def
        bare_envelope_def)
  have c1: "always (Resolved beijing_response) (weather_call default_config ''Beijing'' None) () =
      (Resolved beijing_response, ())"
    and c2: "always (Resolved bare_response) (resource_call default_config) () =
      (Resolved bare_response, ())"
    by (simp_all add: always_def)
  show ?thesis
    using resolved_call_envelope [of "always (Resolved beijing_response)" default_config
        "''Beijing''" None "()" beijing_response "()" "[]"]
      resolved_call_envelope [of "always (Resolved bare_response)" default_config
        _ _ "()" bare_response "()" "[]"]
      c1 c2 toRawOutput_serializable [OF v1 example_envelopes_serializable(1)]
      toRawOutput_serializable [OF v2 example_envelopes_serializable(2)]
    by auto
qed

text \<open>
  C5. When \<^verbatim>\<open>api.get\<close> rejects, either handler returns the text of the envelope with
  \<^verbatim>\<open>ok = false\<close> whose upstream section is: for an axios error with a response, the status
  of that response, its receipt headers, and its body, or \<^verbatim>\<open>{ message }\<close> with the error's
  message when the body is null or undefined; for an axios error without a response
  (a timeout, a refused connection), status null, headers null and \<^verbatim>\<open>{ message }\<close> with the
  error's message; for any other error, status null, headers null and \<^verbatim>\<open>{ message }\<close>
  with \<^verbatim>\<open>String(error)\<close>, which contains the error's message.
\<close>

theorem rejected_call_envelope:
  "(api (weather_call cfg city date) s = (Rejected error, s') \<longrightarrow>
      (\<exists>t. get_weather h cfg api city date s = (Inr (text_result (Some t)), s') \<and>
           toRawOutput h
             \<lparr> ok = False,
               source = \<lparr> url = baseURL cfg, path = endpointPath cfg \<rparr>,
               request = weather_request city date,
               upstream = failure_upstream h error \<rparr> = Inr (Some t))) \<and>
   (api (resource_call cfg) s = (Rejected error, s') \<longrightarrow>
      (\<exists>t. get_data_from_resource_server h cfg api s = (Inr (text_result (Some t)), s') \<and>
           toRawOutput h
             \<lparr> ok = False,
               source = \<lparr> url = baseURL cfg, path = endpointPath cfg \<rparr>,
               request = resource_request,
               upstream = failure_upstream h error \<rparr> = Inr (Some t))) \<and>
   failure_upstream h (AxiosError msg (Some r)) =
     \<lparr> status = resp_status r,
       payment_response_header = getHeaderValue h (resp_headers r) ''payment-response'',
       x_payment_response_header = getHeaderValue h (resp_headers r) ''x-payment-response'',
       data = (if nullish (resp_data r) then JObj [(''message'', JStr msg)] else resp_data r) \<rparr> \<and>
   failure_upstream h (AxiosError msg None) =
     \<lparr> status = None, payment_response_header = None, x_payment_response_header = None,
       data = JObj [(''message'', JStr msg)] \<rparr> \<and>
   failure_upstream h (OtherError name msg) =
     \<lparr> status = None, payment_response_header = None, x_payment_response_header = None,
       data = JObj [(''message'', JStr (String (OtherError name msg)))] \<rparr> \<and>
   sublist msg (String (OtherError name msg))"
  using settle_rejected [of h cfg "weather_request city date" error]
    settle_rejected [of h cfg resource_request error]
  by (auto simp: get_weather_settle get_data_settle envelope_def failure_upstream_def isAxiosError_def response_of_def message_of_def
      response_headers_def response_data_def coalesce_def header_of_undefined
      String_def message_carried nullish_def)

theorem rejected_call_envelope_witness:
  "(\<exists>t. get_weather [] default_config (always (Rejected timeout_error)) ''Beijing''
          (Some ''2026-02-13'') () = (Inr (text_result (Some t)), ()) \<and>
        JSON_stringify [] timeout_envelope = Inr (Some t)) \<and>
   (\<exists>t. get_data_from_resource_server [] default_config (always (Rejected unavailable_error)) () =
          (Inr (text_result (Some t)), ()) \<and>
        JSON_stringify [] unavailable_envelope = Inr (Some t))"
proof -
  let ?E1 = "\<lparr> ok = False,
               source = \<lparr> url = baseURL default_config, path = endpointPath default_config \<rparr>,
               request = weather_request ''Beijing'' (Some ''2026-02-13''),
               upstream = failure_upstream [] timeout_error \<rparr>"
  let ?E2 = "\<lparr> ok = False,
               source = \<lparr> url = baseURL default_config, path = endpointPath default_config \<rparr>,
               request = resource_request,
               upstream = failure_upstream [] unavailable_error \<rparr>"
  have v1: "envelope_value ?E1 = timeout_envelope"
    by (simp add: envelope_value_def default_config_def weather_request_def failure_upstream_def isAxiosError_def response_of_def message_of_def
        timeout_error_def response_headers_def response_data_def coalesce_def nullish_def
        header_of_undefined number_or_null_def string_or_null_def timeout_envelope_def)
  have v2: "envelope_value ?E2 = unavailable_envelope"
    by (simp add: envelope_value_def default_config_def resource_request_def failure_upstream_def isAxiosError_def response_of_def message_of_def
        unavailable_error_def response_headers_def response_data_def coalesce_def nullish_def
        receipt_headers number_or_null_def string_or_null_def unavailable_envelope_def)
  have c1: "always (Rejected timeout_error)
      (weather_call default_config ''Beijing'' (Some ''2026-02-13'')) () =
      (Rejected timeout_error, ())"
    and c2: "always (Rejected unavailable_error) (resource_call default_config) () =
      (Rejected unavailable_error, ())"
    by (simp_all add: always_def)
  show ?thesis
    using rejected_call_envelope [of "always (Rejected timeout_error)" default_config
        "''Beijing''" "Some ''2026-02-13''" "()" timeout_error "()" "[]"]
      rejected_call_envelope [of "always (Rejected unavailable_error)" default_config
        _ _ "()" unavailable_error "()" "[]"]
      c1 c2 toRawOutput_serializable [OF v1 example_envelopes_serializable(3)]
      toRawOutput_serializable [OF v2 example_envelopes_serializable(4)]
    by auto
qed

section \<open>Properties of startup\<close>

lemma register_scheme_missing: "missing k \<Longrightarrow> register_scheme f mk k = Inr []"
  by (simp add: register_scheme_def)

lemma register_scheme_present:
  "\<not> missing k \<Longrightarrow> register_scheme f mk k = Inr r \<Longrightarrow> \<exists>sg. r = [(f, sg)]"
  by (auto simp: register_scheme_def missing_def split: option.splits sum.splits)

lemma createPaidHttpClient_events:
  "createPaidHttpClient rt cfg = (evs, Inr api) \<Longrightarrow>
   \<not> (missing (evmPrivateKey cfg) \<and> missing (svmPrivateKey cfg)) \<Longrightarrow>
   evs = registered (schemes api) \<and> schemes api \<noteq> []"
  by (auto simp: createPaidHttpClient_def split: sum.splits
      dest: register_scheme_present)

lemma main_connected:
  "main rt cfg = (evs, out) \<Longrightarrow> Connected \<in> set evs \<Longrightarrow>
   \<exists>api. createPaidHttpClient rt cfg = (registered (schemes api), Inr api) \<and>
         out = Inr api \<and>
         evs = registered (schemes api) @
           [ToolRegistered ''get-weather'', ToolRegistered ''get-data-from-resource-server'',
            Connected]"
  by (auto simp: main_def createPaidHttpClient_def registered_def Let_def
      split: prod.splits sum.splits)

lemma register_scheme_succeeds:
  "\<forall>k. \<not> isl (mk k) \<Longrightarrow> \<exists>r. register_scheme f mk key = Inr r"
proof (cases key)
  case None
  then show ?thesis
    by (simp add: register_scheme_def missing_def)
next
  case (Some k)
  assume "\<forall>k. \<not> isl (mk k)"
  then have "\<not> isl (mk k)" ..
  then obtain sg where "mk k = Inr sg"
    by (cases "mk k") auto
  with Some show ?thesis
    by (simp add: register_scheme_def)
qed

lemma startup_evm_only:
  "startup example_runtime evm_only =
     [SchemeRegistered EVM, ToolRegistered ''get-weather'',
      ToolRegistered ''get-data-from-resource-server'', Connected]"
  by (simp add: startup_def load_config_def evm_only_def example_runtime_def main_def
      createPaidHttpClient_def register_scheme_def missing_def registered_def)

text \<open>
  C3. With neither secret set (unset or empty), startup is the single event of the
  process ending with exit code 1: no scheme and no tool is registered and the server
  never connects. And whenever startup reaches \<open>Connected\<close> (the server serves
  requests), a signing scheme was registered first, before the two tools.
\<close>

theorem startup_needs_a_secret:
  "(missing (e ''EVM_PRIVATE_KEY'') \<and> missing (e ''SVM_PRIVATE_KEY'') \<longrightarrow>
      startup rt e = [ProcessExit 1]) \<and>
   (Connected \<in> set (startup rt e) \<longrightarrow>
      (\<exists>f more. startup rt e =
         SchemeRegistered f # more @
           [ToolRegistered ''get-weather'', ToolRegistered ''get-data-from-resource-server'',
            Connected]))"
proof (intro conjI impI)
  assume "missing (e ''EVM_PRIVATE_KEY'') \<and> missing (e ''SVM_PRIVATE_KEY'')"
  then show "startup rt e = [ProcessExit 1]"
    by (simp add: startup_def load_config_def)
next
  let ?cfg = "load_config (toNumber rt) e"
  assume c: "Connected \<in> set (startup rt e)"
  then have present: "\<not> (missing (evmPrivateKey ?cfg) \<and> missing (svmPrivateKey ?cfg))"
    by (auto simp: startup_def Let_def)
  obtain evs out where m: "main rt ?cfg = (evs, out)"
    by (cases "main rt ?cfg")
  with c present have "Connected \<in> set evs"
    by (auto simp: startup_def Let_def split: sum.splits)
  with m obtain api where a: "createPaidHttpClient rt ?cfg = (registered (schemes api), Inr api)"
    and out: "out = Inr api"
    and evs: "evs = registered (schemes api) @
           [ToolRegistered ''get-weather'', ToolRegistered ''get-data-from-resource-server'',
            Connected]"
    using main_connected by blast
  from m out present have s: "startup rt e = evs"
    by (auto simp: startup_def Let_def)
  from a present have "schemes api \<noteq> []"
    using createPaidHttpClient_events by blast
  then obtain f sg rest where "schemes api = (f, sg) # rest"
    by (cases "schemes api") auto
  with evs s show "\<exists>f more. startup rt e =
         SchemeRegistered f # more @
           [ToolRegistered ''get-weather'', ToolRegistered ''get-data-from-resource-server'',
            Connected]"
    by (simp add: registered_def)
qed

theorem startup_needs_a_secret_witness:
  "startup example_runtime no_variables = [ProcessExit 1] \<and>
   (\<exists>f more. startup example_runtime evm_only =
      SchemeRegistered f # more @
        [ToolRegistered ''get-weather'', ToolRegistered ''get-data-from-resource-server'',
         Connected])"
proof -
  have 1: "missing (no_variables ''EVM_PRIVATE_KEY'') \<and> missing (no_variables ''SVM_PRIVATE_KEY'')"
    by (simp add: no_variables_def missing_def)
  have 2: "Connected \<in> set (startup example_runtime evm_only)"
    by (simp add: startup_evm_only)
  show ?thesis
    using startup_needs_a_secret [of no_variables example_runtime] 1
      startup_needs_a_secret [of evm_only example_runtime] 2
    by blast
qed

text \<open>
  C10. With \<^verbatim>\<open>RESOURCE_SERVER_URL\<close>, \<^verbatim>\<open>ENDPOINT_PATH\<close> or \<^verbatim>\<open>REQUEST_TIMEOUT_MS\<close> unset, the
  configuration takes \<^verbatim>\<open>http://localhost:4021\<close>, \<^verbatim>\<open>/weather\<close> and 15000. No exit depends on
  them: with a secret set and the library calls succeeding, startup connects and the
  process does not exit, whatever the three variables are.
\<close>

theorem configuration_defaults:
  "(e ''RESOURCE_SERVER_URL'' = None \<longrightarrow> baseURL (load_config n e) = ''http://localhost:4021'') \<and>
   (e ''ENDPOINT_PATH'' = None \<longrightarrow> endpointPath (load_config n e) = ''/weather'') \<and>
   (e ''REQUEST_TIMEOUT_MS'' = None \<longrightarrow> requestTimeoutMs (load_config n e) = JNum 15000) \<and>
   ((\<not> missing (e ''EVM_PRIVATE_KEY'') \<or> \<not> missing (e ''SVM_PRIVATE_KEY'')) \<and>
    (\<forall>k. \<not> isl (privateKeyToAccount rt k)) \<and>
    (\<forall>k. \<not> isl (createKeyPairSignerFromBytes rt k)) \<and> \<not> isl (connect rt) \<longrightarrow>
      Connected \<in> set (startup rt e) \<and> (\<forall>c. ProcessExit c \<notin> set (startup rt e)))"
proof (intro conjI impI)
  assume a: "(\<not> missing (e ''EVM_PRIVATE_KEY'') \<or> \<not> missing (e ''SVM_PRIVATE_KEY'')) \<and>
    (\<forall>k. \<not> isl (privateKeyToAccount rt k)) \<and>
    (\<forall>k. \<not> isl (createKeyPairSignerFromBytes rt k)) \<and> \<not> isl (connect rt)"
  let ?cfg = "load_config (toNumber rt) e"
  obtain r1 where r1: "register_scheme EVM (privateKeyToAccount rt) (evmPrivateKey ?cfg) = Inr r1"
    using a register_scheme_succeeds by blast
  obtain r2 where r2:
    "register_scheme SVM (createKeyPairSignerFromBytes rt) (svmPrivateKey ?cfg) = Inr r2"
    using a register_scheme_succeeds by blast
  obtain u where u: "connect rt = Inr u"
    using a by (cases "connect rt") auto
  have s: "startup rt e = registered (r1 @ r2) @
      [ToolRegistered ''get-weather'', ToolRegistered ''get-data-from-resource-server'', Connected]"
    using a r1 r2 u
    by (auto simp: startup_def main_def createPaidHttpClient_def load_config_def Let_def)
  show "Connected \<in> set (startup rt e)"
    by (simp add: s)
  show "\<forall>c. ProcessExit c \<notin> set (startup rt e)"
    by (auto simp: s registered_def)
qed (simp_all add: load_config_def)

theorem configuration_defaults_witness:
  "baseURL (load_config (\<lambda>t. JNaN) evm_only) = ''http://localhost:4021'' \<and>
   endpointPath (load_config (\<lambda>t. JNaN) evm_only) = ''/weather'' \<and>
   requestTimeoutMs (load_config (\<lambda>t. JNaN) evm_only) = JNum 15000 \<and>
   Connected \<in> set (startup example_runtime evm_only) \<and>
   (\<forall>c. ProcessExit c \<notin> set (startup example_runtime evm_only))"
proof -
  have 1: "evm_only ''RESOURCE_SERVER_URL'' = None" "evm_only ''ENDPOINT_PATH'' = None"
    "evm_only ''REQUEST_TIMEOUT_MS'' = None"
    by (simp_all add: evm_only_def)
  have 2: "(\<not> missing (evm_only ''EVM_PRIVATE_KEY'') \<or> \<not> missing (evm_only ''SVM_PRIVATE_KEY'')) \<and>
    (\<forall>k. \<not> isl (privateKeyToAccount example_runtime k)) \<and>
    (\<forall>k. \<not> isl (createKeyPairSignerFromBytes example_runtime k)) \<and>
    \<not> isl (connect example_runtime)"
    by (simp add: evm_only_def missing_def example_runtime_def)
  show ?thesis
    using configuration_defaults [of evm_only "\<lambda>t. JNaN" example_runtime] 1 2
    by blast
qed

section \<open>Properties of the executor\<close>

lemma send_sent: "send ex req n = (w, n') \<Longrightarrow> sent n' = sent n @ [req]"
  by (auto simp: send_def split: prod.splits)

lemma execute_calls:
  "\<exists>calls. sent (snd (execute ex req n)) = sent n @ req # calls \<and> length calls \<le> 1"
proof -
  obtain w1 n1 where s1: "send ex req n = (w1, n1)"
    by (cases "send ex req n")
  then have n1: "sent n1 = sent n @ [req]"
    by (rule send_sent)
  show ?thesis
  proof (cases "\<exists>r1 c p. w1 = Replied r1 \<and> classify w1 = PaymentRequired \<and>
      challenge_of ex r1 = Inr c \<and> negotiate (registry ex) c = Proof p")
    case True
    then obtain r1 c p where w1: "w1 = Replied r1" "classify w1 = PaymentRequired"
      "challenge_of ex r1 = Inr c" "negotiate (registry ex) c = Proof p"
      by blast
    obtain w2 n2 where s2: "send ex (req\<lparr> req_proof := Some p \<rparr>) n1 = (w2, n2)"
      by (cases "send ex (req\<lparr> req_proof := Some p \<rparr>) n1")
    then have "sent n2 = sent n1 @ [req\<lparr> req_proof := Some p \<rparr>]"
      by (rule send_sent)
    with n1 s1 s2 w1 have "sent (snd (execute ex req n)) = sent n @ req # [req\<lparr> req_proof := Some p \<rparr>]"
      by (simp add: execute_def)
    then show ?thesis
      by (intro exI [of _ "[req\<lparr> req_proof := Some p \<rparr>]"]) simp
  next
    case False
    with s1 have "snd (execute ex req n) = n1"
      by (auto simp: execute_def split: wire.splits sum.splits negotiation.splits)
    with n1 show ?thesis
      by (intro exI [of _ "[]"]) simp
  qed
qed

lemma execute_retry:
  assumes "send ex req n = (Replied r1, n1)" and "classify (Replied r1) = PaymentRequired"
    and "challenge_of ex r1 = Inr c" and "negotiate (registry ex) c = Proof p"
    and "send ex (req\<lparr> req_proof := Some p \<rparr>) n1 = (w2, n2)"
  shows "execute ex req n = (surface ex w2, n2)"
    and "sent n2 = sent n @ [req, req\<lparr> req_proof := Some p \<rparr>]"
  using assms send_sent [OF assms(1)] send_sent [OF assms(5)]
  by (simp_all add: execute_def)

lemma surface_not_succeeded: "classify w \<noteq> Succeeded \<Longrightarrow> \<exists>e. surface ex w = Rejected e"
  by (cases w) (auto simp: surface_def classify_def split: if_splits)

lemma execute_unsupported:
  assumes "network ex req (remote n) = (Replied r, u)" and "resp_status r = Some 402"
    and "challenge_of ex r = Inr c" and "map_of (registry ex) (scheme c) = None"
  shows "execute ex req n =
     (Rejected (AxiosError (status_message ex r) (Some r)), \<lparr> remote = u, sent = sent n @ [req] \<rparr>)"
  using assms
  by (simp add: execute_def send_def classify_def negotiate_def surface_def)

lemma unsupported_envelopes_serializable:
  "\<not> isl (JSON_stringify [] unsupported_weather_envelope)"
  "\<not> isl (JSON_stringify [] unsupported_resource_envelope)"
  by code_simp+

text \<open>
  C1. An invocation of either tool through the executor sends the handler's request
  and at most one more: one or two network calls. When the first reply is classified
  \<open>PaymentRequired\<close> and a proof is produced, the second request is the first with the
  proof attached, and the outcome of that second call is the outcome of the whole call,
  with nothing sent after it; a second \<open>PaymentRequired\<close> or a transport failure is
  surfaced as an error.
\<close>

theorem at_most_one_retry:
  "(\<exists>calls. sent (snd (get_weather h cfg (execute ex) city date n)) =
             sent n @ weather_call cfg city date # calls \<and> length calls \<le> 1) \<and>
   (\<exists>calls. sent (snd (get_data_from_resource_server h cfg (execute ex) n)) =
             sent n @ resource_call cfg # calls \<and> length calls \<le> 1) \<and>
   (send ex req n = (Replied r1, n1) \<and> classify (Replied r1) = PaymentRequired \<and>
    challenge_of ex r1 = Inr c \<and> negotiate (registry ex) c = Proof p \<and>
    send ex (req\<lparr> req_proof := Some p \<rparr>) n1 = (w2, n2) \<longrightarrow>
      execute ex req n = (surface ex w2, n2) \<and>
      sent n2 = sent n @ [req, req\<lparr> req_proof := Some p \<rparr>] \<and>
      (classify w2 \<noteq> Succeeded \<longrightarrow> (\<exists>e. surface ex w2 = Rejected e)))"
  using execute_calls [of ex "weather_call cfg city date" n]
    execute_calls [of ex "resource_call cfg" n]
    execute_retry [of ex req n r1 n1 c p w2 n2] surface_not_succeeded [of w2 ex]
  by (simp add: get_weather_settle get_data_settle)

theorem at_most_one_retry_witness:
  "execute unpayable (resource_call default_config) idle =
     (Rejected (AxiosError ''Request failed with status code 402'' (Some challenge_response)),
      \<lparr> remote = (),
        sent = [resource_call default_config,
                (resource_call default_config)\<lparr> req_proof := Some ''signed'' \<rparr>] \<rparr>) \<and>
   execute paying (resource_call default_config) idle =
     (Resolved paid_response,
      \<lparr> remote = (),
        sent = [resource_call default_config,
                (resource_call default_config)\<lparr> req_proof := Some ''signed'' \<rparr>] \<rparr>)"
proof -
  let ?req = "resource_call default_config"
  let ?n1 = "\<lparr> remote = (), sent = [?req] \<rparr>"
  let ?n2 = "\<lparr> remote = (), sent = [?req, ?req\<lparr> req_proof := Some ''signed'' \<rparr>] \<rparr>"
  let ?c = "\<lparr> scheme = EVM, material = resp_data challenge_response \<rparr>"
  have pre: "send unpayable ?req idle = (Replied challenge_response, ?n1) \<and>
      classify (Replied challenge_response) = PaymentRequired \<and>
      challenge_of unpayable challenge_response = Inr ?c \<and>
      negotiate (registry unpayable) ?c = Proof ''signed'' \<and>
      send unpayable (?req\<lparr> req_proof := Some ''signed'' \<rparr>) ?n1 =
        (Replied challenge_response, ?n2)"
    by (simp add: send_def unpayable_def idle_def classify_def challenge_response_def
        negotiate_def evm_registry_def)
  have pre': "send paying ?req idle = (Replied challenge_response, ?n1) \<and>
      classify (Replied challenge_response) = PaymentRequired \<and>
      challenge_of paying challenge_response = Inr ?c \<and>
      negotiate (registry paying) ?c = Proof ''signed'' \<and>
      send paying (?req\<lparr> req_proof := Some ''signed'' \<rparr>) ?n1 = (Replied paid_response, ?n2)"
    by (simp add: send_def paying_def idle_def classify_def challenge_response_def
        negotiate_def evm_registry_def resource_call_def)
  have s: "surface unpayable (Replied challenge_response) =
      Rejected (AxiosError ''Request failed with status code 402'' (Some challenge_response))"
    by (simp add: surface_def classify_def challenge_response_def unpayable_def)
  have s': "surface paying (Replied paid_response) = Resolved paid_response"
    by (simp add: surface_def classify_def paid_response_def)
  show ?thesis
    using at_most_one_retry [of _ _ unpayable _ _ idle ?req challenge_response ?n1 ?c
        "''signed''" "Replied challenge_response" ?n2]
      at_most_one_retry [of _ _ paying _ _ idle ?req challenge_response ?n1 ?c
        "''signed''" "Replied paid_response" ?n2]
      pre pre' s s'
    by simp
qed

text \<open>
  C7. When the upstream answers 402 with a challenge in its body that names a scheme
  family absent from the registry, exactly one request is sent (no retry), and either
  handler returns the text of the envelope with \<^verbatim>\<open>ok = false\<close>, status 402 and the body
  of that response as \<^verbatim>\<open>data\<close>.
\<close>

theorem unsupported_scheme_envelope:
  "resp_status r = Some 402 \<and> challenge_of ex r = Inr c \<and>
   map_of (registry ex) (scheme c) = None \<and> \<not> nullish (resp_data r) \<longrightarrow>
   (network ex (weather_call cfg city date) (remote n) = (Replied r, u) \<longrightarrow>
      (\<exists>t. get_weather h cfg (execute ex) city date n =
           (Inr (text_result (Some t)),
            \<lparr> remote = u, sent = sent n @ [weather_call cfg city date] \<rparr>) \<and>
          toRawOutput h
            \<lparr> ok = False,
              source = \<lparr> url = baseURL cfg, path = endpointPath cfg \<rparr>,
              request = weather_request city date,
              upstream =
                \<lparr> status = Some 402,
                  payment_response_header = getHeaderValue h (resp_headers r) ''payment-response'',
                  x_payment_response_header =
                    getHeaderValue h (resp_headers r) ''x-payment-response'',
                  data = resp_data r \<rparr> \<rparr> = Inr (Some t))) \<and>
   (network ex (resource_call cfg) (remote n) = (Replied r, u) \<longrightarrow>
      (\<exists>t. get_data_from_resource_server h cfg (execute ex) n =
           (Inr (text_result (Some t)), \<lparr> remote = u, sent = sent n @ [resource_call cfg] \<rparr>) \<and>
          toRawOutput h
            \<lparr> ok = False,
              source = \<lparr> url = baseURL cfg, path = endpointPath cfg \<rparr>,
              request = resource_request,
              upstream =
                \<lparr> status = Some 402,
                  payment_response_header = getHeaderValue h (resp_headers r) ''payment-response'',
                  x_payment_response_header =
                    getHeaderValue h (resp_headers r) ''x-payment-response'',
                  data = resp_data r \<rparr> \<rparr> = Inr (Some t)))"
proof (intro impI conjI)
  let ?err = "AxiosError (status_message ex r) (Some r)"
  assume a: "resp_status r = Some 402 \<and> challenge_of ex r = Inr c \<and>
   map_of (registry ex) (scheme c) = None \<and> \<not> nullish (resp_data r)"
  then have up: "failure_upstream h ?err =
      \<lparr> status = Some 402,
        payment_response_header = getHeaderValue h (resp_headers r) ''payment-response'',
        x_payment_response_header = getHeaderValue h (resp_headers r) ''x-payment-response'',
        data = resp_data r \<rparr>"
    by (simp add: failure_upstream_def isAxiosError_def response_of_def message_of_def response_headers_def response_data_def coalesce_def)
  {
    assume "network ex (weather_call cfg city date) (remote n) = (Replied r, u)"
    with a have "execute ex (weather_call cfg city date) n =
        (Rejected ?err, \<lparr> remote = u, sent = sent n @ [weather_call cfg city date] \<rparr>)"
      by (simp add: execute_unsupported)
    then show "\<exists>t. get_weather h cfg (execute ex) city date n =
           (Inr (text_result (Some t)),
            \<lparr> remote = u, sent = sent n @ [weather_call cfg city date] \<rparr>) \<and>
          toRawOutput h
            \<lparr> ok = False,
              source = \<lparr> url = baseURL cfg, path = endpointPath cfg \<rparr>,
              request = weather_request city date,
              upstream =
                \<lparr> status = Some 402,
                  payment_response_header = getHeaderValue h (resp_headers r) ''payment-response'',
                  x_payment_response_header =
                    getHeaderValue h (resp_headers r) ''x-payment-response'',
                  data = resp_data r \<rparr> \<rparr> = Inr (Some t)"
      using settle_rejected [of h cfg "weather_request city date" ?err] up
      by (simp add: get_weather_settle envelope_def)
  }
  {
    assume "network ex (resource_call cfg) (remote n) = (Replied r, u)"
    with a have "execute ex (resource_call cfg) n =
        (Rejected ?err, \<lparr> remote = u, sent = sent n @ [resource_call cfg] \<rparr>)"
      by (simp add: execute_unsupported)
    then show "\<exists>t. get_data_from_resource_server h cfg (execute ex) n =
           (Inr (text_result (Some t)), \<lparr> remote = u, sent = sent n @ [resource_call cfg] \<rparr>) \<and>
          toRawOutput h
            \<lparr> ok = False,
              source = \<lparr> url = baseURL cfg, path = endpointPath cfg \<rparr>,
              request = resource_request,
              upstream =
                \<lparr> status = Some 402,
                  payment_response_header = getHeaderValue h (resp_headers r) ''payment-response'',
                  x_payment_response_header =
                    getHeaderValue h (resp_headers r) ''x-payment-response'',
                  data = resp_data r \<rparr> \<rparr> = Inr (Some t)"
      using settle_rejected [of h cfg resource_request ?err] up
      by (simp add: get_data_settle envelope_def)
  }
qed

theorem unsupported_scheme_envelope_witness:
  "(\<exists>t. get_weather [] default_config (execute svm_challenger) ''Beijing'' None idle =
          (Inr (text_result (Some t)),
           \<lparr> remote = (), sent = [weather_call default_config ''Beijing'' None] \<rparr>) \<and>
        JSON_stringify [] unsupported_weather_envelope = Inr (Some t)) \<and>
   (\<exists>t. get_data_from_resource_server [] default_config (execute svm_challenger) idle =
          (Inr (text_result (Some t)),
           \<lparr> remote = (), sent = [resource_call default_config] \<rparr>) \<and>
        JSON_stringify [] unsupported_resource_envelope = Inr (Some t))"
proof -
  let ?c = "\<lparr> scheme = SVM, material = resp_data challenge_response \<rparr>"
  let ?up = "\<lparr> status = Some 402,
      payment_response_header =
        getHeaderValue [] (resp_headers challenge_response) ''payment-response'',
      x_payment_response_header =
        getHeaderValue [] (resp_headers challenge_response) ''x-payment-response'',
      data = resp_data challenge_response \<rparr>"
  let ?E1 = "\<lparr> ok = False,
      source = \<lparr> url = baseURL default_config, path = endpointPath default_config \<rparr>,
      request = weather_request ''Beijing'' None, upstream = ?up \<rparr>"
  let ?E2 = "\<lparr> ok = False,
      source = \<lparr> url = baseURL default_config, path = endpointPath default_config \<rparr>,
      request = resource_request, upstream = ?up \<rparr>"
  have pre: "resp_status challenge_response = Some 402 \<and>
      challenge_of svm_challenger challenge_response = Inr ?c \<and>
      map_of (registry svm_challenger) (scheme ?c) = None \<and>
      \<not> nullish (resp_data challenge_response)"
    by (simp add: svm_challenger_def challenge_response_def evm_registry_def nullish_def)
  have n1: "network svm_challenger (weather_call default_config ''Beijing'' None) (remote idle) =
      (Replied challenge_response, ())"
    and n2: "network svm_challenger (resource_call default_config) (remote idle) =
      (Replied challenge_response, ())"
    by (simp_all add: svm_challenger_def)
  have v1: "envelope_value ?E1 = unsupported_weather_envelope"
    by (simp add: envelope_value_def default_config_def weather_request_def
        challenge_response_def receipt_headers number_or_null_def string_or_null_def
        unsupported_weather_envelope_def)
  have v2: "envelope_value ?E2 = unsupported_resource_envelope"
    by (simp add: envelope_value_def default_config_def resource_request_def
        challenge_response_def receipt_headers number_or_null_def string_or_null_def
        unsupported_resource_envelope_def)
  show ?thesis
    using unsupported_scheme_envelope [of challenge_response svm_challenger ?c default_config
        "''Beijing''" None idle "()" "[]"]
      pre n1 n2
      toRawOutput_serializable [OF v1 unsupported_envelopes_serializable(1)]
      toRawOutput_serializable [OF v2 unsupported_envelopes_serializable(2)]
    by (simp add: idle_def)
qed

end
